theory Spec2Isabelle
  imports Main
begin

section \<open>Python values used by the circuit breaker\<close>

text \<open>
  A Python class is given by its name and its direct base classes. The built-in
  \<^verbatim>\<open>issubclass(C, D)\<close> holds when \<open>D\<close> is \<open>C\<close> itself or is reached from \<open>C\<close>
  through base classes; with a tuple as second argument it holds when it holds for one
  member of the tuple (and never for the empty tuple).
\<close>

datatype pyclass = PyClass (cls_name: string) (cls_bases: "pyclass list")

fun issubclass :: "pyclass \<Rightarrow> pyclass \<Rightarrow> bool" where
  "issubclass (PyClass n bs) d = (PyClass n bs = d \<or> (\<exists>b \<in> set bs. issubclass b d))"

definition issubclass_tuple :: "pyclass \<Rightarrow> pyclass list \<Rightarrow> bool" where
  "issubclass_tuple c ds = (\<exists>d \<in> set ds. issubclass c d)"

text \<open>
  The wording of the specification: a type is a subtype of another when it is that exact
  type or the other is one of its ancestors, that is, the reflexive and transitive closure
  of the direct-base relation.
\<close>

inductive subtype_of :: "pyclass \<Rightarrow> pyclass \<Rightarrow> bool" where
  exact: "subtype_of c c"
| ancestor: "b \<in> set (cls_bases c) \<Longrightarrow> subtype_of b d \<Longrightarrow> subtype_of c d"

definition object_cls :: pyclass where
  "object_cls = PyClass ''object'' []"

definition BaseException_cls :: pyclass where
  "BaseException_cls = PyClass ''BaseException'' [object_cls]"

definition Exception_cls :: pyclass where
  "Exception_cls = PyClass ''Exception'' [BaseException_cls]"

definition TypeError_cls :: pyclass where
  "TypeError_cls = PyClass ''TypeError'' [Exception_cls]"

definition ValueError_cls :: pyclass where
  "ValueError_cls = PyClass ''ValueError'' [Exception_cls]"

definition CircuitBreakerError_cls :: pyclass where
  \<comment> \<open>Modelled from the spec: the class of the error raised on an open circuit is declared
     in the state module, which is not among the sources; the specification asks for a
     distinct error kind.\<close>
  "CircuitBreakerError_cls = PyClass ''CircuitBreakerError'' [Exception_cls]"

text \<open>
  Times are integers counting microseconds, the resolution of \<^verbatim>\<open>datetime\<close> and
  \<^verbatim>\<open>timedelta\<close>: a \<^verbatim>\<open>datetime\<close> is the number of microseconds since the epoch and
  a \<^verbatim>\<open>timedelta\<close> a number of microseconds.
\<close>

type_synonym datetime = int
type_synonym timedelta = int

definition timedelta_seconds :: "int \<Rightarrow> timedelta" where
  "timedelta_seconds n = n * 1000000"

text \<open>
  A raised exception is an instance of a class with a message. The error raised by an open
  breaker is an exception of its own class that carries the remaining time.
\<close>

datatype pyexc =
    PyExc pyclass string
  | CircuitBreakerError timedelta
    \<comment> \<open>Modelled from the spec: the breaker-open error, declared in the state module, which
       is not among the sources; it carries the remaining time until the next trial.\<close>

fun type_of :: "pyexc \<Rightarrow> pyclass" where
  "type_of (PyExc c msg) = c"
| "type_of (CircuitBreakerError remaining) = CircuitBreakerError_cls"

datatype pyval = PyNone | PyInt int | PyStr string

section \<open>The data model\<close>

datatype CircuitBreakerState = CLOSED | OPEN | HALF_OPEN

text \<open>
  Modelled from the spec: the storage classes (\<^verbatim>\<open>storage/base.py\<close>,
  \<^verbatim>\<open>storage/memory.py\<close>) are not among the sources. The specification describes a
  storage as two mutable cells, the current state tag and a failure counter, read and
  written through \<^verbatim>\<open>getState\<close>, \<^verbatim>\<open>setState\<close>, \<^verbatim>\<open>getCounter\<close>,
  \<^verbatim>\<open>incrementCounter\<close> and \<^verbatim>\<open>resetCounter\<close>.
\<close>

record CircuitBreakerStorage =
  storage_state :: CircuitBreakerState
  storage_counter :: int

definition CircuitMemoryStorage :: "CircuitBreakerState \<Rightarrow> CircuitBreakerStorage" where
  \<comment> \<open>Modelled from the spec: the in-memory reference storage, which is not among the
     sources; it starts at the given tag with no failure counted.\<close>
  "CircuitMemoryStorage s = \<lparr>storage_state = s, storage_counter = 0\<rparr>"

definition increment_counter :: "CircuitBreakerStorage \<Rightarrow> CircuitBreakerStorage" where
  \<comment> \<open>Modelled from the spec: \<^verbatim>\<open>incrementCounter\<close> of the storage interface.\<close>
  "increment_counter st = st\<lparr>storage_counter := storage_counter st + 1\<rparr>"

definition reset_counter :: "CircuitBreakerStorage \<Rightarrow> CircuitBreakerStorage" where
  \<comment> \<open>Modelled from the spec: \<^verbatim>\<open>resetCounter\<close> of the storage interface.\<close>
  "reset_counter st = st\<lparr>storage_counter := 0\<rparr>"

text \<open>
  Modelled from the spec: the state classes (\<^verbatim>\<open>state.py\<close>) are not among the sources.
  A state object is one of three variants; the Open variant holds the time at which it was
  entered. Its tag is what the \<^verbatim>\<open>state\<close> attribute of a state object returns.
\<close>

datatype CircuitBreakerBaseState =
    CircuitClosedState
  | CircuitOpenState (opened_at: datetime)
  | CircuitHalfOpenState

fun state_tag :: "CircuitBreakerBaseState \<Rightarrow> CircuitBreakerState" where
  "state_tag CircuitClosedState = CLOSED"
| "state_tag (CircuitOpenState t) = OPEN"
| "state_tag CircuitHalfOpenState = HALF_OPEN"

text \<open>A listener is known by its identity only; what it does when notified is external.\<close>

type_synonym CircuitBreakerListener = string

text \<open>
  The fields of \<^verbatim>\<open>CircuitBreaker\<close>, as \<^verbatim>\<open>__init__\<close> sets them. The lock is left
  out: the model is sequential. \<^verbatim>\<open>_decorated_functions\<close> is a set that the class never
  adds to; it holds the names of functions.
\<close>

record CircuitBreaker =
  state_storage :: CircuitBreakerStorage
  cached_state :: CircuitBreakerBaseState
  fail_max :: int
  timeout_duration :: timedelta
  excluded_exception_types :: "pyclass list"
  listeners :: "CircuitBreakerListener list"
  name :: "string option"
  decorated_functions :: "string set"

text \<open>
  The world a call runs in: the breaker, the clock that \<^verbatim>\<open>datetime.utcnow()\<close> reads,
  and three observations that the program itself does not keep: the notifications sent to
  listeners (listener, previous state object, new state object), the number of times a
  protected function body ran, and the number of times a call was dispatched through the
  breaker's state.
\<close>

record world =
  breaker :: CircuitBreaker
  clock :: datetime
  notifications :: "(CircuitBreakerListener \<times> CircuitBreakerBaseState option \<times> CircuitBreakerBaseState) list"
  invocations :: nat
  dispatches :: nat

text \<open>
  A Python function object: the attribute \<^verbatim>\<open>_ignore_on_call\<close> (absent on a function
  that nothing has marked) and what a call of it does to the world, returning a value or
  raising an exception.
\<close>

record pyfunc =
  ignore_on_call_attr :: "bool option"
  is_coroutine :: bool
  body :: "world \<Rightarrow> (pyexc + pyval) \<times> world"

text \<open>
  A function of the caller's that does not touch the breaker: it runs for some time, is
  counted as one invocation, and returns or raises.
\<close>

definition user_function :: "nat \<Rightarrow> (pyexc + pyval) \<Rightarrow> pyfunc" where
  "user_function d r =
     \<lparr>ignore_on_call_attr = None, is_coroutine = False,
      body = (\<lambda>w. (r, w\<lparr>clock := clock w + int d, invocations := invocations w + 1\<rparr>))\<rparr>"


section \<open>Storage and state objects\<close>

definition update_storage :: "(CircuitBreakerStorage \<Rightarrow> CircuitBreakerStorage) \<Rightarrow> world \<Rightarrow> world" where
  "update_storage g w = w\<lparr>breaker := (breaker w)\<lparr>state_storage := g (state_storage (breaker w))\<rparr>\<rparr>"

definition set_state :: "CircuitBreakerState \<Rightarrow> CircuitBreakerStorage \<Rightarrow> CircuitBreakerStorage" where
  \<comment> \<open>Modelled from the spec: \<^verbatim>\<open>setState\<close> of the storage interface.\<close>
  "set_state tag st = st\<lparr>storage_state := tag\<rparr>"

definition notify_state_change ::
  "CircuitBreakerBaseState option \<Rightarrow> CircuitBreakerBaseState \<Rightarrow> world \<Rightarrow> world" where
  \<comment> \<open>Modelled from the spec: the listener interface is not among the sources. On a
     transition each registered listener is invoked, in registration order, with the
     previous and the new state.\<close>
  "notify_state_change prev new w =
     w\<lparr>notifications := notifications w @ map (\<lambda>l. (l, prev, new)) (listeners (breaker w))\<rparr>"

fun new_state_object :: "CircuitBreakerState \<Rightarrow> datetime \<Rightarrow> CircuitBreakerBaseState" where
  "new_state_object CLOSED now = CircuitClosedState"
| "new_state_object OPEN now = CircuitOpenState now"
| "new_state_object HALF_OPEN now = CircuitHalfOpenState"

definition construct_state ::
  "CircuitBreakerState \<Rightarrow> CircuitBreakerBaseState option \<Rightarrow> bool \<Rightarrow> world
     \<Rightarrow> CircuitBreakerBaseState \<times> world" where
  \<comment> \<open>Modelled from the spec: the constructors of the state classes, which are not among the
     sources. A transition (\<open>notify\<close>) into Closed resets the counter, an Open state
     records the time of its entry, and a transition notifies the listeners.\<close>
  "construct_state tag prev_state notify w =
     (let s = new_state_object tag (clock w) in
      (s, if notify
          then notify_state_change prev_state s
                 (if tag = CLOSED then update_storage reset_counter w else w)
          else w))"

section \<open>The controller\<close>

text \<open>
  \<^verbatim>\<open>__init__\<close>: every parameter has a default. A storage object is truthy, so
  \<^verbatim>\<open>state_storage or CircuitMemoryStorage(CLOSED)\<close> takes the given storage when there
  is one; \<^verbatim>\<open>list(exclude or [])\<close> is the empty list for \<^verbatim>\<open>None\<close>. The first state
  object is constructed without notification, which has no effect beyond the object.
\<close>

record init_args =
  arg_fail_max :: "int option"
  arg_timeout_duration :: "timedelta option"
  arg_exclude :: "pyclass list option"
  arg_listeners :: "CircuitBreakerListener list option"
  arg_state_storage :: "CircuitBreakerStorage option"
  arg_name :: "string option"

definition no_args :: init_args where
  "no_args = \<lparr>arg_fail_max = None, arg_timeout_duration = None, arg_exclude = None,
              arg_listeners = None, arg_state_storage = None, arg_name = None\<rparr>"

definition init :: "init_args \<Rightarrow> datetime \<Rightarrow> CircuitBreaker" where
  "init args now =
     (let storage = (case arg_state_storage args of
                       None \<Rightarrow> CircuitMemoryStorage CLOSED | Some st \<Rightarrow> st)
      in \<lparr>state_storage = storage,
          cached_state = new_state_object (storage_state storage) now,
          fail_max = (case arg_fail_max args of None \<Rightarrow> 5 | Some n \<Rightarrow> n),
          timeout_duration =
            (case arg_timeout_duration args of None \<Rightarrow> timedelta_seconds 60 | Some t \<Rightarrow> t),
          excluded_exception_types = (case arg_exclude args of None \<Rightarrow> [] | Some es \<Rightarrow> es),
          listeners = (case arg_listeners args of None \<Rightarrow> [] | Some ls \<Rightarrow> ls),
          name = arg_name args,
          decorated_functions = {}\<rparr>)"

definition fail_counter :: "world \<Rightarrow> int" where
  "fail_counter w = storage_counter (state_storage (breaker w))"

definition set_fail_max :: "int \<Rightarrow> CircuitBreaker \<Rightarrow> CircuitBreaker" where
  "set_fail_max number b = b\<lparr>fail_max := number\<rparr>"

definition set_timeout_duration :: "timedelta \<Rightarrow> CircuitBreaker \<Rightarrow> CircuitBreaker" where
  "set_timeout_duration timeout b = b\<lparr>timeout_duration := timeout\<rparr>"

definition set_name :: "string option \<Rightarrow> CircuitBreaker \<Rightarrow> CircuitBreaker" where
  "set_name n b = b\<lparr>name := n\<rparr>"

definition excluded_exceptions :: "CircuitBreaker \<Rightarrow> pyclass list" where
  "excluded_exceptions b = excluded_exception_types b"

definition add_excluded_exception :: "pyclass \<Rightarrow> CircuitBreaker \<Rightarrow> CircuitBreaker" where
  "add_excluded_exception exception b =
     b\<lparr>excluded_exception_types := excluded_exception_types b @ [exception]\<rparr>"

definition add_excluded_exceptions :: "pyclass list \<Rightarrow> CircuitBreaker \<Rightarrow> CircuitBreaker" where
  "add_excluded_exceptions exceptions b = foldl (\<lambda>b exc. add_excluded_exception exc b) b exceptions"

definition remove_excluded_exception :: "pyclass \<Rightarrow> CircuitBreaker \<Rightarrow> pyexc + CircuitBreaker" where
  \<comment> \<open>\<^verbatim>\<open>list.remove\<close> takes out the first occurrence and raises ValueError when there
     is none.\<close>
  "remove_excluded_exception exception b =
     (if exception \<in> set (excluded_exception_types b)
      then Inr (b\<lparr>excluded_exception_types := remove1 exception (excluded_exception_types b)\<rparr>)
      else Inl (PyExc ValueError_cls ''list.remove(x): x not in list''))"

definition get_listeners :: "CircuitBreaker \<Rightarrow> CircuitBreakerListener list" where
  "get_listeners b = listeners b"

definition add_listener :: "CircuitBreakerListener \<Rightarrow> CircuitBreaker \<Rightarrow> CircuitBreaker" where
  "add_listener listener b = b\<lparr>listeners := listeners b @ [listener]\<rparr>"

definition add_listeners :: "CircuitBreakerListener list \<Rightarrow> CircuitBreaker \<Rightarrow> CircuitBreaker" where
  "add_listeners ls b = foldl (\<lambda>b l. add_listener l b) b ls"

definition remove_listener :: "CircuitBreakerListener \<Rightarrow> CircuitBreaker \<Rightarrow> pyexc + CircuitBreaker" where
  "remove_listener listener b =
     (if listener \<in> set (listeners b)
      then Inr (b\<lparr>listeners := remove1 listener (listeners b)\<rparr>)
      else Inl (PyExc ValueError_cls ''list.remove(x): x not in list''))"

definition create_new_state ::
  "CircuitBreakerState \<Rightarrow> CircuitBreakerBaseState option \<Rightarrow> bool \<Rightarrow> world
     \<Rightarrow> CircuitBreakerBaseState \<times> world" where
  \<comment> \<open>\<^verbatim>\<open>_create_new_state\<close> calls the constructor that the tag names. Its handler for
     KeyError is never entered: the constructors raise nothing.\<close>
  "create_new_state new_state prev_state notify w = construct_state new_state prev_state notify w"

definition current_state :: "world \<Rightarrow> CircuitBreakerState" where
  "current_state w = storage_state (state_storage (breaker w))"

definition state_setter :: "CircuitBreakerState \<Rightarrow> world \<Rightarrow> world" where
  "state_setter state_str w =
     (let (s, w1) = create_new_state state_str (Some (cached_state (breaker w))) True w
      in w1\<lparr>breaker := (breaker w1)\<lparr>cached_state := s\<rparr>\<rparr>)"

definition state_getter :: "world \<Rightarrow> CircuitBreakerBaseState \<times> world" where
  "state_getter w =
     (let w1 = (if current_state w \<noteq> state_tag (cached_state (breaker w))
                then state_setter (current_state w) w else w)
      in (cached_state (breaker w1), w1))"

definition inc_counter :: "world \<Rightarrow> world" where
  "inc_counter w = update_storage increment_counter w"

definition is_system_error :: "CircuitBreaker \<Rightarrow> pyexc \<Rightarrow> bool" where
  "is_system_error b exception =
     (let exception_type = type_of exception
      in \<not> issubclass_tuple exception_type (excluded_exception_types b))"

text \<open>
  The manual transitions. In \<^verbatim>\<open>self.state = self._state_storage.state = TAG\<close> Python
  assigns the targets from left to right: the cached state is replaced first (which
  notifies), then the tag is written to the storage.
\<close>

definition open_breaker :: "world \<Rightarrow> world" where
  "open_breaker w = update_storage (set_state OPEN) (state_setter OPEN w)"

definition half_open :: "world \<Rightarrow> world" where
  "half_open w = update_storage (set_state HALF_OPEN) (state_setter HALF_OPEN w)"

definition close_breaker :: "world \<Rightarrow> world" where
  "close_breaker w = update_storage (set_state CLOSED) (state_setter CLOSED w)"

section \<open>The state machine\<close>

text \<open>
  Modelled from the spec: the call routines of the three state classes (\<^verbatim>\<open>state.py\<close>)
  are not among the sources. The definitions follow section 4.1 of the specification; the
  transitions go through the controller's \<^verbatim>\<open>open\<close>, \<^verbatim>\<open>half_open\<close> and
  \<^verbatim>\<open>close\<close>.
\<close>

definition closed_handle :: "pyfunc \<Rightarrow> world \<Rightarrow> (pyexc + pyval) \<times> world" where
  \<comment> \<open>Modelled from the spec: Closed invokes the function; a success resets the counter; a
     failure that is a system error increments it and opens the breaker when the counter
     has reached the threshold; the error is raised again.\<close>
  "closed_handle f w =
     (case body f w of
        (Inr v, w1) \<Rightarrow> (Inr v, update_storage reset_counter w1)
      | (Inl e, w1) \<Rightarrow>
          if is_system_error (breaker w1) e
          then (let w2 = inc_counter w1
                in (Inl e, if fail_max (breaker w2) \<le> fail_counter w2 then open_breaker w2 else w2))
          else (Inl e, w1))"

definition half_open_handle :: "pyfunc \<Rightarrow> world \<Rightarrow> (pyexc + pyval) \<times> world" where
  \<comment> \<open>Modelled from the spec: Half-Open invokes the function once; a success resets the
     counter and closes the breaker; a failure that is a system error opens it; an excluded
     failure changes nothing; the error is raised again.\<close>
  "half_open_handle f w =
     (case body f w of
        (Inr v, w1) \<Rightarrow> (Inr v, close_breaker (update_storage reset_counter w1))
      | (Inl e, w1) \<Rightarrow>
          (Inl e, if is_system_error (breaker w1) e then open_breaker w1 else w1))"

definition open_handle :: "datetime \<Rightarrow> pyfunc \<Rightarrow> world \<Rightarrow> (pyexc + pyval) \<times> world" where
  \<comment> \<open>Modelled from the spec: Open computes the time elapsed since its entry; before the
     timeout it fails with the breaker-open error carrying the remaining time and does not
     invoke the function; from the timeout on it moves to Half-Open and performs the
     Half-Open logic with the same invocation.\<close>
  "open_handle entered f w =
     (let elapsed = clock w - entered
      in if elapsed < timeout_duration (breaker w)
         then (Inl (CircuitBreakerError (timeout_duration (breaker w) - elapsed)), w)
         else half_open_handle f (half_open w))"

fun state_call :: "CircuitBreakerBaseState \<Rightarrow> pyfunc \<Rightarrow> world \<Rightarrow> (pyexc + pyval) \<times> world" where
  "state_call CircuitClosedState f w = closed_handle f w"
| "state_call (CircuitOpenState entered) f w = open_handle entered f w"
| "state_call CircuitHalfOpenState f w = half_open_handle f w"

section \<open>The entry points and the decorator\<close>

definition getattr_ignore_on_call :: "pyfunc \<Rightarrow> bool" where
  \<comment> \<open>\<^verbatim>\<open>getattr(func, "_ignore_on_call", False)\<close>\<close>
  "getattr_ignore_on_call func = (case ignore_on_call_attr func of None \<Rightarrow> False | Some v \<Rightarrow> v)"

definition call :: "pyfunc \<Rightarrow> world \<Rightarrow> (pyexc + pyval) \<times> world" where
  "call func w =
     (if getattr_ignore_on_call func then body func w
      else (let (s, w1) = state_getter w
            in state_call s func (w1\<lparr>dispatches := dispatches w1 + 1\<rparr>)))"

definition call_async :: "pyfunc \<Rightarrow> world \<Rightarrow> (pyexc + pyval) \<times> world" where
  \<comment> \<open>The awaited twin of \<^verbatim>\<open>call\<close>: in a sequential model an awaited coroutine runs to
     its end, and the state classes handle both kinds of call by the same rules.\<close>
  "call_async func w =
     (if getattr_ignore_on_call func then body func w
      else (let (s, w1) = state_getter w
            in state_call s func (w1\<lparr>dispatches := dispatches w1 + 1\<rparr>)))"

definition outer_wrapper :: "bool \<Rightarrow> pyfunc \<Rightarrow> pyfunc" where
  \<comment> \<open>\<^verbatim>\<open>_outer_wrapper\<close> inside \<^verbatim>\<open>__call__\<close>: the wrapper of a coroutine function
     awaits \<^verbatim>\<open>call_async\<close>, the wrapper of any other function calls \<^verbatim>\<open>call\<close>; the
     wrapper is marked with \<^verbatim>\<open>_ignore_on_call\<close>.\<close>
  "outer_wrapper ignore_on_call func =
     \<lparr>ignore_on_call_attr = Some ignore_on_call,
      is_coroutine = is_coroutine func,
      body = (if is_coroutine func then (\<lambda>w. call_async func w) else (\<lambda>w. call func w))\<rparr>"

datatype pyobject = Function pyfunc | NotFunction string

datatype decorated = ReturnFunc pyfunc | OuterWrapper "pyfunc \<Rightarrow> pyfunc"

definition dunder_call ::
  "pyobject list \<Rightarrow> bool option \<Rightarrow> world \<Rightarrow> (pyexc + decorated) \<times> world" where
  \<comment> \<open>\<^verbatim>\<open>__call__(self, *call_args, ignore_on_call=True)\<close>; \<^verbatim>\<open>inspect.isfunction\<close>
     holds of function objects only.\<close>
  "dunder_call call_args ignore_on_call w =
     (let ig = (case ignore_on_call of None \<Rightarrow> True | Some v \<Rightarrow> v)
      in case call_args of
           [Function func] \<Rightarrow> (Inr (ReturnFunc (outer_wrapper ig func)), w)
         | [] \<Rightarrow> (Inr (OuterWrapper (outer_wrapper ig)), w)
         | _ \<Rightarrow> (Inl (PyExc TypeError_cls ''Decorator does not accept positional arguments.''), w))"

text \<open>A sequence of calls, each at the time the previous one ended.\<close>

fun run_calls :: "pyfunc list \<Rightarrow> world \<Rightarrow> world" where
  "run_calls [] w = w"
| "run_calls (f # fs) w = run_calls fs (snd (call f w))"

text \<open>
  What the claims speak of: a protected function that raises an error which is not excluded,
  and the worlds used as concrete inputs.
\<close>

definition failing :: "CircuitBreaker \<Rightarrow> pyfunc \<Rightarrow> bool" where
  "failing b f = (\<exists>d e. f = user_function d (Inl e) \<and> is_system_error b e)"

definition new_world :: "init_args \<Rightarrow> datetime \<Rightarrow> world" where
  "new_world args now =
     \<lparr>breaker = init args now, clock = now, notifications = [], invocations = 0, dispatches = 0\<rparr>"

definition sample_args :: init_args where
  "sample_args = no_args\<lparr>arg_fail_max := Some 2, arg_timeout_duration := Some 10,
                         arg_exclude := Some [ValueError_cls],
                         arg_listeners := Some [''log'', ''metrics'']\<rparr>"

definition type_error :: pyexc where
  "type_error = PyExc TypeError_cls ''boom''"

definition value_error :: pyexc where
  "value_error = PyExc ValueError_cls ''business''"

text \<open>Abbreviations of the proofs: a counter value written to the storage, and the trace a
  user function leaves when it is dispatched once and runs.\<close>

definition with_counter :: "int \<Rightarrow> world \<Rightarrow> world" where
  "with_counter c w = update_storage (\<lambda>st. st\<lparr>storage_counter := c\<rparr>) w"

definition ran :: "nat \<Rightarrow> world \<Rightarrow> world" where
  "ran d w = w\<lparr>clock := clock w + int d, invocations := invocations w + 1,
              dispatches := dispatches w + 1\<rparr>"

section \<open>Single calls\<close>

lemmas op_defs = update_storage_def set_state_def notify_state_change_def construct_state_def
  create_new_state_def current_state_def state_setter_def state_getter_def inc_counter_def
  open_breaker_def half_open_def close_breaker_def fail_counter_def increment_counter_def
  reset_counter_def Let_def

lemmas handle_defs = closed_handle_def half_open_handle_def open_handle_def call_def
  getattr_ignore_on_call_def user_function_def is_system_error_def

lemmas sample_defs = new_world_def sample_args_def no_args_def init_def CircuitMemoryStorage_def
  type_error_def value_error_def issubclass_tuple_def TypeError_cls_def ValueError_cls_def
  Exception_cls_def BaseException_cls_def object_cls_def CircuitBreakerError_cls_def
  timedelta_seconds_def

lemma failingI: "is_system_error b e \<Longrightarrow> failing b (user_function d (Inl e))"
  by (auto simp: failing_def)

lemma call_closed_failure_below:
  assumes "cached_state (breaker w) = CircuitClosedState" "current_state w = CLOSED"
    "is_system_error (breaker w) e" "fail_counter w + 1 < fail_max (breaker w)"
  shows "call (user_function d (Inl e)) w = (Inl e, with_counter (fail_counter w + 1) (ran d w))"
  using assms by (simp add: op_defs handle_defs with_counter_def ran_def)

lemma call_closed_failure_reach:
  assumes "cached_state (breaker w) = CircuitClosedState" "current_state w = CLOSED"
    "is_system_error (breaker w) e" "fail_max (breaker w) \<le> fail_counter w + 1"
  shows "call (user_function d (Inl e)) w =
           (Inl e, open_breaker (with_counter (fail_counter w + 1) (ran d w)))"
  using assms by (simp add: op_defs handle_defs with_counter_def ran_def)

lemma call_closed_success:
  assumes "cached_state (breaker w) = CircuitClosedState" "current_state w = CLOSED"
  shows "call (user_function d (Inr v)) w = (Inr v, with_counter 0 (ran d w))"
  using assms by (simp add: op_defs handle_defs with_counter_def ran_def)

lemma run_calls_append: "run_calls (fs @ gs) w = run_calls gs (run_calls fs w)"
  by (induction fs arbitrary: w) simp_all

section \<open>Threshold trip\<close>

lemma run_failures_below:
  assumes "cached_state (breaker w) = CircuitClosedState" "current_state w = CLOSED"
    "\<forall>f\<in>set fs. failing (breaker w) f"
    "fail_counter w + int (length fs) < fail_max (breaker w)"
  shows "breaker (run_calls fs w) = breaker (with_counter (fail_counter w + int (length fs)) w)
       \<and> invocations (run_calls fs w) = invocations w + length fs
       \<and> dispatches (run_calls fs w) = dispatches w + length fs
       \<and> notifications (run_calls fs w) = notifications w"
  using assms
proof (induction fs arbitrary: w)
  case Nil
  then show ?case by (simp add: with_counter_def op_defs)
next
  case (Cons f fs)
  from Cons.prems(3) obtain d e where f: "f = user_function d (Inl e)"
    and sys: "is_system_error (breaker w) e" by (auto simp: failing_def)
  let ?w1 = "with_counter (fail_counter w + 1) (ran d w)"
  have step: "call f w = (Inl e, ?w1)"
    unfolding f using Cons.prems(1,2,4) sys by (intro call_closed_failure_below) auto
  have a: "cached_state (breaker ?w1) = CircuitClosedState" "current_state ?w1 = CLOSED"
    using Cons.prems(1,2) by (simp_all add: with_counter_def ran_def op_defs)
  have b: "\<forall>f\<in>set fs. failing (breaker ?w1) f"
    using Cons.prems(3)
    by (simp add: failing_def is_system_error_def with_counter_def ran_def op_defs)
  have c: "fail_counter ?w1 + int (length fs) < fail_max (breaker ?w1)"
    using Cons.prems(4) by (simp add: with_counter_def ran_def op_defs)
  from Cons.IH[OF a b c] show ?case
    by (simp add: step with_counter_def ran_def op_defs add.assoc)
qed

text \<open>
  Claim C1. A Closed breaker with threshold \<open>N \<ge> 1\<close> and no failure counted receives \<open>N\<close>
  calls in a row whose function raises an error that is not excluded. Each failure adds one
  to the counter; the breaker stays Closed while the counter is below \<open>N\<close> and is Open,
  entered at the time of the last failure, once the counter is \<open>N\<close>. When the last of the
  \<open>N\<close> calls succeeds instead, the counter is 0 and the breaker is Closed.
\<close>

theorem threshold_trip:
  assumes closed: "cached_state (breaker w) = CircuitClosedState" "current_state w = CLOSED"
    and zero: "fail_counter w = 0"
    and len: "int (length fs) = fail_max (breaker w)" "1 \<le> fail_max (breaker w)"
    and fails: "\<forall>f\<in>set fs. failing (breaker w) f"
  shows "(\<forall>k\<le>length fs. fail_counter (run_calls (take k fs) w) = int k)
       \<and> (\<forall>k<length fs. current_state (run_calls (take k fs) w) = CLOSED
                \<and> cached_state (breaker (run_calls (take k fs) w)) = CircuitClosedState)
       \<and> current_state (run_calls fs w) = OPEN
       \<and> cached_state (breaker (run_calls fs w)) = CircuitOpenState (clock (run_calls fs w))
       \<and> (\<forall>d v. fail_counter (run_calls (butlast fs @ [user_function d (Inr v)]) w) = 0
              \<and> current_state (run_calls (butlast fs @ [user_function d (Inr v)]) w) = CLOSED
              \<and> cached_state (breaker (run_calls (butlast fs @ [user_function d (Inr v)]) w))
                   = CircuitClosedState)"
proof -
  have below: "breaker (run_calls (take k fs) w) = breaker (with_counter (int k) w)"
    if "k < length fs" for k
  proof -
    have "\<forall>f\<in>set (take k fs). failing (breaker w) f"
      using fails by (meson in_set_takeD)
    moreover have "fail_counter w + int (length (take k fs)) < fail_max (breaker w)"
      using that zero len by simp
    ultimately show ?thesis
      using run_failures_below[OF closed, of "take k fs"] that zero by simp
  qed
  have fs_ne: "fs \<noteq> []" using len by auto
  define n where "n = length fs - 1"
  have n: "n < length fs" "take n fs = butlast fs" "Suc n = length fs"
    using fs_ne by (simp_all add: n_def butlast_conv_take)
  let ?wn = "run_calls (butlast fs) w"
  have bn: "breaker ?wn = breaker (with_counter (int n) w)"
    using below[OF n(1)] n(2) by simp
  have cn: "cached_state (breaker ?wn) = CircuitClosedState" "current_state ?wn = CLOSED"
    "fail_counter ?wn = int n" "fail_max (breaker ?wn) = fail_max (breaker w)"
    using closed by (simp_all add: bn with_counter_def op_defs)
  from fails fs_ne obtain d e where l: "last fs = user_function d (Inl e)"
    and sys: "is_system_error (breaker w) e"
    by (metis failing_def last_in_set)
  have sysn: "is_system_error (breaker ?wn) e"
    using sys by (simp add: bn is_system_error_def with_counter_def op_defs)
  have reach: "fail_max (breaker ?wn) \<le> fail_counter ?wn + 1"
    using len n(3) cn by simp
  have split: "fs = butlast fs @ [last fs]" using fs_ne by simp
  have full: "run_calls fs w = open_breaker (with_counter (int n + 1) (ran d ?wn))"
    using call_closed_failure_reach[OF cn(1,2) sysn reach, of d]
    by (subst split) (simp add: run_calls_append l cn)
  have succ: "run_calls (butlast fs @ [user_function d' (Inr v)]) w = with_counter 0 (ran d' ?wn)"
    for d' v
    using call_closed_success[OF cn(1,2), of d' v] by (simp add: run_calls_append)
  have c1: "fail_counter (run_calls (take k fs) w) = int k" if "k \<le> length fs" for k
  proof (cases "k < length fs")
    case True
    then show ?thesis by (simp add: below with_counter_def op_defs)
  next
    case False
    with that have "k = length fs" by simp
    then show ?thesis using n(3) by (simp add: full with_counter_def ran_def op_defs)
  qed
  have c2: "current_state (run_calls (take k fs) w) = CLOSED
        \<and> cached_state (breaker (run_calls (take k fs) w)) = CircuitClosedState"
    if "k < length fs" for k
    using closed below[OF that] by (simp add: with_counter_def op_defs)
  have c3: "current_state (run_calls fs w) = OPEN"
    by (simp add: full with_counter_def ran_def op_defs)
  have c4: "cached_state (breaker (run_calls fs w)) = CircuitOpenState (clock (run_calls fs w))"
    by (simp add: full with_counter_def ran_def op_defs)
  have c5: "fail_counter (run_calls (butlast fs @ [user_function d' (Inr v)]) w) = 0
      \<and> current_state (run_calls (butlast fs @ [user_function d' (Inr v)]) w) = CLOSED
      \<and> cached_state (breaker (run_calls (butlast fs @ [user_function d' (Inr v)]) w))
                   = CircuitClosedState" for d' v
    using cn by (simp add: succ with_counter_def ran_def op_defs)
  from c1 c2 c3 c4 c5 show ?thesis by blast
qed

theorem threshold_trip_witness:
  "fail_counter (run_calls [user_function 3 (Inl type_error), user_function 4 (Inl type_error)]
       (new_world sample_args 100)) = 2
   \<and> current_state (run_calls [user_function 3 (Inl type_error), user_function 4 (Inl type_error)]
       (new_world sample_args 100)) = OPEN
   \<and> cached_state (breaker (run_calls [user_function 3 (Inl type_error), user_function 4 (Inl type_error)]
       (new_world sample_args 100))) = CircuitOpenState 107
   \<and> current_state (run_calls [user_function 3 (Inl type_error)] (new_world sample_args 100)) = CLOSED
   \<and> fail_counter (run_calls [user_function 3 (Inl type_error), user_function 1 (Inr PyNone)]
       (new_world sample_args 100)) = 0"
proof -
  let ?w = "new_world sample_args 100"
  let ?fs = "[user_function 3 (Inl type_error), user_function 4 (Inl type_error)]"
  have sys: "is_system_error (breaker ?w) type_error"
    by (simp add: is_system_error_def sample_defs)
  have h1: "cached_state (breaker ?w) = CircuitClosedState" "current_state ?w = CLOSED"
    "fail_counter ?w = 0" "int (length ?fs) = fail_max (breaker ?w)" "1 \<le> fail_max (breaker ?w)"
    by (simp_all add: sample_defs op_defs)
  have h2: "\<forall>f\<in>set ?fs. failing (breaker ?w) f"
    using sys by (simp add: failingI)
  have clk: "clock (run_calls ?fs ?w) = 107"
    by (simp add: handle_defs op_defs sample_defs)
  from threshold_trip[OF h1 h2] have
    a: "\<forall>k\<le>length ?fs. fail_counter (run_calls (take k ?fs) ?w) = int k"
    and b: "\<forall>k<length ?fs. current_state (run_calls (take k ?fs) ?w) = CLOSED
                \<and> cached_state (breaker (run_calls (take k ?fs) ?w)) = CircuitClosedState"
    and c: "current_state (run_calls ?fs ?w) = OPEN"
    and d: "cached_state (breaker (run_calls ?fs ?w)) = CircuitOpenState (clock (run_calls ?fs ?w))"
    and e: "\<forall>d v. fail_counter (run_calls (butlast ?fs @ [user_function d (Inr v)]) ?w) = 0
              \<and> current_state (run_calls (butlast ?fs @ [user_function d (Inr v)]) ?w) = CLOSED
              \<and> cached_state (breaker (run_calls (butlast ?fs @ [user_function d (Inr v)]) ?w))
                   = CircuitClosedState"
    by blast+
  have a2: "fail_counter (run_calls ?fs ?w) = 2"
    using a[rule_format, of 2] by simp
  have b1: "current_state (run_calls [user_function 3 (Inl type_error)] ?w) = CLOSED"
    using b[rule_format, of 1] by simp
  have e1: "fail_counter (run_calls [user_function 3 (Inl type_error), user_function 1 (Inr PyNone)] ?w) = 0"
    using e[rule_format, of 1 PyNone] by simp
  show ?thesis using a2 b1 c d e1 clk by simp
qed

lemma user_function_unmarked: "\<not> getattr_ignore_on_call (user_function d r)"
  by (simp add: getattr_ignore_on_call_def user_function_def)



lemma half_open_effect:
  "half_open w = w\<lparr>breaker := (breaker w)\<lparr>cached_state := CircuitHalfOpenState,
         state_storage := (state_storage (breaker w))\<lparr>storage_state := HALF_OPEN\<rparr>\<rparr>,
       notifications := notifications w @
         map (\<lambda>l. (l, Some (cached_state (breaker w)), CircuitHalfOpenState)) (listeners (breaker w))\<rparr>"
  by (simp add: op_defs)

lemma open_breaker_effect:
  "open_breaker w = w\<lparr>breaker := (breaker w)\<lparr>cached_state := CircuitOpenState (clock w),
         state_storage := (state_storage (breaker w))\<lparr>storage_state := OPEN\<rparr>\<rparr>,
       notifications := notifications w @
         map (\<lambda>l. (l, Some (cached_state (breaker w)), CircuitOpenState (clock w))) (listeners (breaker w))\<rparr>"
  by (simp add: op_defs)

lemma close_breaker_effect:
  "close_breaker w = w\<lparr>breaker := (breaker w)\<lparr>cached_state := CircuitClosedState,
         state_storage := (state_storage (breaker w))\<lparr>storage_counter := 0, storage_state := CLOSED\<rparr>\<rparr>,
       notifications := notifications w @
         map (\<lambda>l. (l, Some (cached_state (breaker w)), CircuitClosedState)) (listeners (breaker w))\<rparr>"
  by (simp add: op_defs)

lemma call_half_open:
  assumes "cached_state (breaker w) = CircuitHalfOpenState" "current_state w = HALF_OPEN"
    "\<not> getattr_ignore_on_call f"
  shows "call f w = half_open_handle f (w\<lparr>dispatches := dispatches w + 1\<rparr>)"
  using assms by (simp add: call_def op_defs)

lemma call_half_open_success:
  assumes "cached_state (breaker w) = CircuitHalfOpenState" "current_state w = HALF_OPEN"
  shows "call (user_function d (Inr v)) w = (Inr v, close_breaker (ran d w))"
  using assms by (simp add: op_defs handle_defs ran_def)

lemma call_half_open_failure:
  assumes "cached_state (breaker w) = CircuitHalfOpenState" "current_state w = HALF_OPEN"
    "is_system_error (breaker w) e"
  shows "call (user_function d (Inl e)) w = (Inl e, open_breaker (ran d w))"
  using assms by (simp add: op_defs handle_defs ran_def)

lemma call_half_open_excluded:
  assumes "cached_state (breaker w) = CircuitHalfOpenState" "current_state w = HALF_OPEN"
    "\<not> is_system_error (breaker w) e"
  shows "call (user_function d (Inl e)) w = (Inl e, ran d w)"
  using assms by (simp add: op_defs handle_defs ran_def)




lemma call_open_late_excluded:
  assumes "cached_state (breaker w) = CircuitOpenState t" "current_state w = OPEN"
    "timeout_duration (breaker w) \<le> clock w - t" "\<not> is_system_error (breaker w) e"
  shows "call (user_function d (Inl e)) w = (Inl e, ran d (half_open w))"
  using assms by (simp add: op_defs handle_defs ran_def)




text \<open>
  Claim C3. In the Half-Open state a call runs the function once. When it returns, the
  breaker is Closed and the counter is 0; when it raises an error that is not excluded, the
  error reaches the caller and the breaker is Open, entered at the time the function
  ended.
\<close>

theorem half_open_resolution:
  assumes "cached_state (breaker w) = CircuitHalfOpenState" and "current_state w = HALF_OPEN"
  shows "fst (call (user_function d (Inr v)) w) = Inr v
       \<and> invocations (snd (call (user_function d (Inr v)) w)) = invocations w + 1
       \<and> current_state (snd (call (user_function d (Inr v)) w)) = CLOSED
       \<and> cached_state (breaker (snd (call (user_function d (Inr v)) w))) = CircuitClosedState
       \<and> fail_counter (snd (call (user_function d (Inr v)) w)) = 0
       \<and> (is_system_error (breaker w) e \<longrightarrow>
             fst (call (user_function d (Inl e)) w) = Inl e
           \<and> invocations (snd (call (user_function d (Inl e)) w)) = invocations w + 1
           \<and> clock (snd (call (user_function d (Inl e)) w)) = clock w + int d
           \<and> current_state (snd (call (user_function d (Inl e)) w)) = OPEN
           \<and> cached_state (breaker (snd (call (user_function d (Inl e)) w)))
                = CircuitOpenState (clock w + int d))"
proof -
  have s: "call (user_function d (Inr v)) w = (Inr v, close_breaker (ran d w))"
    using call_half_open_success[OF assms] .
  have f: "call (user_function d (Inl e)) w = (Inl e, open_breaker (ran d w))"
    if "is_system_error (breaker w) e"
    using call_half_open_failure[OF assms that] .
  show ?thesis
    by (simp add: s f close_breaker_effect open_breaker_effect ran_def current_state_def
          fail_counter_def)
qed



theorem half_open_resolution_witness:
  "fst (call (user_function 2 (Inr (PyInt 7))) (half_open (new_world sample_args 100))) = Inr (PyInt 7)
   \<and> current_state (snd (call (user_function 2 (Inr (PyInt 7))) (half_open (new_world sample_args 100))))
       = CLOSED
   \<and> cached_state (breaker (snd (call (user_function 2 (Inl type_error))
        (half_open (new_world sample_args 100))))) = CircuitOpenState 102"
proof -
  let ?w = "half_open (new_world sample_args 100)"
  have h: "cached_state (breaker ?w) = CircuitHalfOpenState" "current_state ?w = HALF_OPEN"
    by (simp_all add: half_open_effect current_state_def)
  have sys: "is_system_error (breaker ?w) type_error"
    by (simp add: half_open_effect sample_defs is_system_error_def)
  have clk: "clock ?w = 100"
    by (simp add: half_open_effect sample_defs)
  from half_open_resolution[OF h, of 2 "PyInt 7" type_error] sys clk
  show ?thesis by simp
qed

section \<open>Excluded errors\<close>

lemma issubclass_refl: "issubclass c c"
  by (cases c) simp

lemma issubclass_base: "b \<in> set (cls_bases c) \<Longrightarrow> issubclass b d \<Longrightarrow> issubclass c d"
  by (cases c) auto

lemma issubclass_subtype_of: "issubclass c d = subtype_of c d"
proof
  show "issubclass c d \<Longrightarrow> subtype_of c d"
  proof (induction c d rule: issubclass.induct)
    case (1 n bs d)
    from "1.prems" consider "PyClass n bs = d" | b where "b \<in> set bs" "issubclass b d"
      by auto
    then show ?case
    proof cases
      case 1
      then show ?thesis by (auto intro: subtype_of.exact)
    next
      case 2
      with "1.IH" have "subtype_of b d" by blast
      with 2 show ?thesis by (auto intro: subtype_of.ancestor)
    qed
  qed
next
  show "subtype_of c d \<Longrightarrow> issubclass c d"
    by (induction rule: subtype_of.induct) (auto intro: issubclass_refl issubclass_base)
qed

lemma call_closed_excluded:
  assumes "cached_state (breaker w) = CircuitClosedState" "current_state w = CLOSED"
    "\<not> is_system_error (breaker w) e"
  shows "call (user_function d (Inl e)) w = (Inl e, ran d w)"
  using assms by (simp add: op_defs handle_defs ran_def)

text \<open>
  Claim C4, as amended. \<^verbatim>\<open>is_system_error\<close> is false exactly when the class of the
  exception is a subtype, the class itself included, of a class in the exclusion list. A
  call whose function raises such an excluded error raises it unchanged to the caller and
  leaves the counter as it was. From Closed and from Half-Open the state stays what it
  was. From Open with the timeout elapsed the breaker is Half-Open after the call: the
  move to Half-Open precedes the trial, and the excluded error changes nothing after it.
\<close>

theorem exclusion_transparency:
  assumes "\<not> is_system_error (breaker w) e"
  shows "((is_system_error b x = False)
           = (\<exists>E\<in>set (excluded_exception_types b). subtype_of (type_of x) E))
       \<and> (cached_state (breaker w) = CircuitClosedState \<and> current_state w = CLOSED \<longrightarrow>
           fst (call (user_function d (Inl e)) w) = Inl e
         \<and> fail_counter (snd (call (user_function d (Inl e)) w)) = fail_counter w
         \<and> current_state (snd (call (user_function d (Inl e)) w)) = CLOSED
         \<and> cached_state (breaker (snd (call (user_function d (Inl e)) w))) = CircuitClosedState)
       \<and> (cached_state (breaker w) = CircuitHalfOpenState \<and> current_state w = HALF_OPEN \<longrightarrow>
           fst (call (user_function d (Inl e)) w) = Inl e
         \<and> fail_counter (snd (call (user_function d (Inl e)) w)) = fail_counter w
         \<and> current_state (snd (call (user_function d (Inl e)) w)) = HALF_OPEN
         \<and> cached_state (breaker (snd (call (user_function d (Inl e)) w))) = CircuitHalfOpenState)
       \<and> (cached_state (breaker w) = CircuitOpenState t \<and> current_state w = OPEN
           \<and> timeout_duration (breaker w) \<le> clock w - t \<longrightarrow>
           fst (call (user_function d (Inl e)) w) = Inl e
         \<and> fail_counter (snd (call (user_function d (Inl e)) w)) = fail_counter w
         \<and> current_state (snd (call (user_function d (Inl e)) w)) = HALF_OPEN
         \<and> cached_state (breaker (snd (call (user_function d (Inl e)) w))) = CircuitHalfOpenState)"
proof (intro conjI)
  show "(is_system_error b x = False)
           = (\<exists>E\<in>set (excluded_exception_types b). subtype_of (type_of x) E)"
    by (simp add: is_system_error_def issubclass_tuple_def issubclass_subtype_of)
  show "cached_state (breaker w) = CircuitClosedState \<and> current_state w = CLOSED \<longrightarrow>
           fst (call (user_function d (Inl e)) w) = Inl e
         \<and> fail_counter (snd (call (user_function d (Inl e)) w)) = fail_counter w
         \<and> current_state (snd (call (user_function d (Inl e)) w)) = CLOSED
         \<and> cached_state (breaker (snd (call (user_function d (Inl e)) w))) = CircuitClosedState"
    using assms by (auto simp: call_closed_excluded ran_def fail_counter_def current_state_def)
  show "cached_state (breaker w) = CircuitHalfOpenState \<and> current_state w = HALF_OPEN \<longrightarrow>
           fst (call (user_function d (Inl e)) w) = Inl e
         \<and> fail_counter (snd (call (user_function d (Inl e)) w)) = fail_counter w
         \<and> current_state (snd (call (user_function d (Inl e)) w)) = HALF_OPEN
         \<and> cached_state (breaker (snd (call (user_function d (Inl e)) w))) = CircuitHalfOpenState"
    using assms by (auto simp: call_half_open_excluded ran_def fail_counter_def current_state_def)
  show "cached_state (breaker w) = CircuitOpenState t \<and> current_state w = OPEN
           \<and> timeout_duration (breaker w) \<le> clock w - t \<longrightarrow>
           fst (call (user_function d (Inl e)) w) = Inl e
         \<and> fail_counter (snd (call (user_function d (Inl e)) w)) = fail_counter w
         \<and> current_state (snd (call (user_function d (Inl e)) w)) = HALF_OPEN
         \<and> cached_state (breaker (snd (call (user_function d (Inl e)) w))) = CircuitHalfOpenState"
    using assms
    by (auto simp: call_open_late_excluded ran_def half_open_effect fail_counter_def
          current_state_def)
qed

theorem exclusion_transparency_witness:
  "\<not> is_system_error (breaker (new_world sample_args 100)) value_error
   \<and> call (user_function 2 (Inl value_error)) (new_world sample_args 100)
       = (Inl value_error, (new_world sample_args 100)\<lparr>clock := 102, invocations := 1, dispatches := 1\<rparr>)
   \<and> fail_counter (snd (call (user_function 2 (Inl value_error)) (new_world sample_args 100))) = 0
   \<and> current_state (snd (call (user_function 2 (Inl value_error)) (new_world sample_args 100)))
       = CLOSED"
proof -
  let ?w = "new_world sample_args 100"
  have ex: "\<not> is_system_error (breaker ?w) value_error"
    by (simp add: is_system_error_def sample_defs)
  have st: "cached_state (breaker ?w) = CircuitClosedState \<and> current_state ?w = CLOSED"
    "fail_counter ?w = 0"
    by (simp_all add: sample_defs op_defs)
  have run: "call (user_function 2 (Inl value_error)) ?w
       = (Inl value_error, ?w\<lparr>clock := 102, invocations := 1, dispatches := 1\<rparr>)"
    by (simp add: handle_defs op_defs sample_defs)
  from exclusion_transparency[OF ex, of _ _ 2] st
  have "fail_counter (snd (call (user_function 2 (Inl value_error)) ?w)) = 0
      \<and> current_state (snd (call (user_function 2 (Inl value_error)) ?w)) = CLOSED"
    by simp
  with ex run show ?thesis by simp
qed

text \<open>
  The claim as it was stated fails for the trial of an Open breaker: the state tag after the
  call is not the tag before it.
\<close>

theorem exclusion_transparency_counterexample:
  "cached_state (breaker ((open_breaker (new_world sample_args 100))\<lparr>clock := 110\<rparr>))
      = CircuitOpenState 100
   \<and> current_state ((open_breaker (new_world sample_args 100))\<lparr>clock := 110\<rparr>) = OPEN
   \<and> \<not> is_system_error (breaker ((open_breaker (new_world sample_args 100))\<lparr>clock := 110\<rparr>))
         value_error
   \<and> fst (call (user_function 2 (Inl value_error))
         ((open_breaker (new_world sample_args 100))\<lparr>clock := 110\<rparr>)) = Inl value_error
   \<and> current_state (snd (call (user_function 2 (Inl value_error))
         ((open_breaker (new_world sample_args 100))\<lparr>clock := 110\<rparr>))) = HALF_OPEN
   \<and> current_state (snd (call (user_function 2 (Inl value_error))
         ((open_breaker (new_world sample_args 100))\<lparr>clock := 110\<rparr>)))
       \<noteq> current_state ((open_breaker (new_world sample_args 100))\<lparr>clock := 110\<rparr>)"
  by (simp add: handle_defs op_defs sample_defs)

section \<open>Manual transitions and drift\<close>

lemma call_after_open:
  assumes "\<not> getattr_ignore_on_call f"
  shows "call f ((open_breaker w)\<lparr>clock := now\<rparr>)
           = open_handle (clock w) f ((open_breaker w)\<lparr>clock := now, dispatches := dispatches w + 1\<rparr>)"
  using assms by (simp add: call_def op_defs)

lemma call_after_half_open:
  assumes "\<not> getattr_ignore_on_call f"
  shows "call f ((half_open w)\<lparr>clock := now\<rparr>)
           = half_open_handle f ((half_open w)\<lparr>clock := now, dispatches := dispatches w + 1\<rparr>)"
  using assms by (simp add: call_def op_defs)

lemma call_after_close:
  assumes "\<not> getattr_ignore_on_call f"
  shows "call f ((close_breaker w)\<lparr>clock := now\<rparr>)
           = closed_handle f ((close_breaker w)\<lparr>clock := now, dispatches := dispatches w + 1\<rparr>)"
  using assms by (simp add: call_def op_defs)

text \<open>
  Claim C5. Whatever the state, the counter and the clock, each of \<^verbatim>\<open>open()\<close>,
  \<^verbatim>\<open>half_open()\<close> and \<^verbatim>\<open>close()\<close> writes its tag to the storage, replaces the cached
  state object by a new one of that tag (an Open one entered now) and notifies every
  listener with the previous and the new state object; \<^verbatim>\<open>close()\<close> also leaves the counter
  at 0. A call that follows, at any later time, is handled by the routine of the new state.
\<close>

theorem manual_override:
  assumes "\<not> getattr_ignore_on_call f"
  shows "current_state (open_breaker w) = OPEN
       \<and> cached_state (breaker (open_breaker w)) = CircuitOpenState (clock w)
       \<and> notifications (open_breaker w) = notifications w @
            map (\<lambda>l. (l, Some (cached_state (breaker w)), CircuitOpenState (clock w)))
                (listeners (breaker w))
       \<and> call f ((open_breaker w)\<lparr>clock := now\<rparr>)
           = open_handle (clock w) f ((open_breaker w)\<lparr>clock := now, dispatches := dispatches w + 1\<rparr>)
       \<and> current_state (half_open w) = HALF_OPEN
       \<and> cached_state (breaker (half_open w)) = CircuitHalfOpenState
       \<and> notifications (half_open w) = notifications w @
            map (\<lambda>l. (l, Some (cached_state (breaker w)), CircuitHalfOpenState))
                (listeners (breaker w))
       \<and> call f ((half_open w)\<lparr>clock := now\<rparr>)
           = half_open_handle f ((half_open w)\<lparr>clock := now, dispatches := dispatches w + 1\<rparr>)
       \<and> current_state (close_breaker w) = CLOSED
       \<and> cached_state (breaker (close_breaker w)) = CircuitClosedState
       \<and> fail_counter (close_breaker w) = 0
       \<and> notifications (close_breaker w) = notifications w @
            map (\<lambda>l. (l, Some (cached_state (breaker w)), CircuitClosedState))
                (listeners (breaker w))
       \<and> call f ((close_breaker w)\<lparr>clock := now\<rparr>)
           = closed_handle f ((close_breaker w)\<lparr>clock := now, dispatches := dispatches w + 1\<rparr>)"
  using call_after_open[OF assms, where w = w and now = now]
    call_after_half_open[OF assms, where w = w and now = now]
    call_after_close[OF assms, where w = w and now = now]
  by (simp add: open_breaker_effect half_open_effect close_breaker_effect current_state_def
        fail_counter_def)

text \<open>
  Claim C6. When the tag in the storage differs from the tag of the cached state object,
  reading the breaker's state builds a new state object of the storage's tag, caches it and
  notifies each registered listener once, with the old cached object as previous state and
  the new object as new state; the storage's tag stays, and reading the state again changes
  nothing more. When the tags agree the cached object is returned and nothing changes.
\<close>

theorem drift_detection:
  "(current_state w \<noteq> state_tag (cached_state (breaker w)) \<longrightarrow>
       fst (state_getter w) = new_state_object (current_state w) (clock w)
     \<and> state_tag (fst (state_getter w)) = current_state w
     \<and> cached_state (breaker (snd (state_getter w))) = fst (state_getter w)
     \<and> current_state (snd (state_getter w)) = current_state w
     \<and> notifications (snd (state_getter w)) = notifications w @
          map (\<lambda>l. (l, Some (cached_state (breaker w)), new_state_object (current_state w) (clock w)))
              (listeners (breaker w))
     \<and> state_getter (snd (state_getter w)) = (fst (state_getter w), snd (state_getter w)))
   \<and> (current_state w = state_tag (cached_state (breaker w)) \<longrightarrow>
        state_getter w = (cached_state (breaker w), w))"
proof -
  have tag: "state_tag (new_state_object s n) = s" for s n
    by (cases s) simp_all
  show ?thesis
    by (cases "current_state w") (auto simp: op_defs tag)
qed

theorem manual_override_witness:
  "\<not> getattr_ignore_on_call (user_function 1 (Inr PyNone))
   \<and> current_state (open_breaker (new_world sample_args 100)) = OPEN
   \<and> cached_state (breaker (open_breaker (new_world sample_args 100))) = CircuitOpenState 100
   \<and> fst (call (user_function 1 (Inr PyNone)) ((open_breaker (new_world sample_args 100))\<lparr>clock := 105\<rparr>))
        = Inl (CircuitBreakerError 5)
   \<and> fst (call (user_function 1 (Inr PyNone)) ((half_open (new_world sample_args 100))\<lparr>clock := 105\<rparr>))
        = Inr PyNone"
proof -
  let ?f = "user_function 1 (Inr PyNone)"
  let ?w = "new_world sample_args 100"
  have u: "\<not> getattr_ignore_on_call ?f" by (rule user_function_unmarked)
  have c: "clock ?w = 100" by (simp add: sample_defs)
  have t: "timeout_duration (breaker (open_breaker ?w)) = 10"
    by (simp add: open_breaker_effect sample_defs)
  from manual_override[OF u, of ?w 105]
  have o: "current_state (open_breaker ?w) = OPEN"
    and oc: "cached_state (breaker (open_breaker ?w)) = CircuitOpenState (clock ?w)"
    and oh: "call ?f ((open_breaker ?w)\<lparr>clock := 105\<rparr>)
           = open_handle (clock ?w) ?f ((open_breaker ?w)\<lparr>clock := 105, dispatches := dispatches ?w + 1\<rparr>)"
    and hh: "call ?f ((half_open ?w)\<lparr>clock := 105\<rparr>)
           = half_open_handle ?f ((half_open ?w)\<lparr>clock := 105, dispatches := dispatches ?w + 1\<rparr>)"
    by blast+
  have 1: "fst (call ?f ((open_breaker ?w)\<lparr>clock := 105\<rparr>)) = Inl (CircuitBreakerError 5)"
    unfolding oh by (simp add: open_handle_def c t)
  have 2: "fst (call ?f ((half_open ?w)\<lparr>clock := 105\<rparr>)) = Inr PyNone"
    unfolding hh by (simp add: half_open_handle_def user_function_def)
  from u o oc 1 2 c show ?thesis by simp
qed

theorem drift_detection_witness:
  "current_state (update_storage (set_state OPEN) (new_world sample_args 100))
      \<noteq> state_tag (cached_state (breaker (update_storage (set_state OPEN) (new_world sample_args 100))))
   \<and> fst (state_getter (update_storage (set_state OPEN) (new_world sample_args 100)))
        = CircuitOpenState 100
   \<and> notifications (snd (state_getter (update_storage (set_state OPEN) (new_world sample_args 100))))
        = [(''log'', Some CircuitClosedState, CircuitOpenState 100),
           (''metrics'', Some CircuitClosedState, CircuitOpenState 100)]
   \<and> state_getter (new_world sample_args 100) = (CircuitClosedState, new_world sample_args 100)"
proof -
  let ?w = "update_storage (set_state OPEN) (new_world sample_args 100)"
  let ?v = "new_world sample_args 100"
  have d: "current_state ?w \<noteq> state_tag (cached_state (breaker ?w))"
    by (simp add: sample_defs op_defs)
  have a: "current_state ?v = state_tag (cached_state (breaker ?v))"
    by (simp add: sample_defs op_defs)
  have v: "current_state ?w = OPEN" "clock ?w = 100" "notifications ?w = []"
    "cached_state (breaker ?w) = CircuitClosedState" "listeners (breaker ?w) = [''log'', ''metrics'']"
    "cached_state (breaker ?v) = CircuitClosedState"
    by (simp_all add: sample_defs op_defs)
  from drift_detection[of ?w] d
  have 1: "fst (state_getter ?w) = new_state_object (current_state ?w) (clock ?w)"
    and 2: "notifications (snd (state_getter ?w)) = notifications ?w @
          map (\<lambda>l. (l, Some (cached_state (breaker ?w)), new_state_object (current_state ?w) (clock ?w)))
              (listeners (breaker ?w))"
    by blast+
  from drift_detection[of ?v] a
  have 3: "state_getter ?v = (cached_state (breaker ?v), ?v)" by blast
  show ?thesis
    using d 1 2 3 by (simp add: v)
qed

section \<open>The decorator\<close>


lemma dispatches_state_setter: "dispatches (state_setter s w) = dispatches w"
  by (simp add: op_defs split: prod.splits)

lemma dispatches_state_getter: "dispatches (snd (state_getter w)) = dispatches w"
  by (simp add: state_getter_def Let_def dispatches_state_setter)













lemma call_unmarked:
  assumes "\<not> getattr_ignore_on_call g"
  shows "call g w = state_call (fst (state_getter w)) g
                      ((snd (state_getter w))\<lparr>dispatches := dispatches w + 1\<rparr>)"
  using assms by (simp add: call_def split_def Let_def dispatches_state_getter)

lemma call_async_unmarked:
  assumes "\<not> getattr_ignore_on_call g"
  shows "call_async g w = state_call (fst (state_getter w)) g
                            ((snd (state_getter w))\<lparr>dispatches := dispatches w + 1\<rparr>)"
  using assms by (simp add: call_async_def split_def Let_def dispatches_state_getter)










section \<open>Configuration\<close>

lemma add_excluded_exceptions_append:
  "excluded_exception_types (add_excluded_exceptions cs b) = excluded_exception_types b @ cs"
  unfolding add_excluded_exceptions_def
  by (induction cs arbitrary: b) (simp_all add: add_excluded_exception_def)

lemma add_listeners_append: "listeners (add_listeners ls b) = listeners b @ ls"
  unfolding add_listeners_def
  by (induction ls arbitrary: b) (simp_all add: add_listener_def)

text \<open>
  Claim C8. A breaker constructed with no argument has threshold 5, a timeout of 60 seconds,
  no excluded exception, no listener and no name, and is Closed with no failure counted.
  Each of the five is what the constructor was given when it was given one, and each can be
  changed afterwards: the threshold, the timeout and the name by their setters, the
  exclusion list and the listeners by adding and removing.
\<close>

theorem configuration_surface:
  "fail_max (init no_args now) = 5
   \<and> timeout_duration (init no_args now) = timedelta_seconds 60
   \<and> timedelta_seconds 60 = 60 * 1000000
   \<and> excluded_exceptions (init no_args now) = []
   \<and> get_listeners (init no_args now) = []
   \<and> name (init no_args now) = None
   \<and> cached_state (init no_args now) = CircuitClosedState
   \<and> storage_state (state_storage (init no_args now)) = CLOSED
   \<and> storage_counter (state_storage (init no_args now)) = 0
   \<and> fail_max (init (args\<lparr>arg_fail_max := Some n\<rparr>) now) = n
   \<and> timeout_duration (init (args\<lparr>arg_timeout_duration := Some t\<rparr>) now) = t
   \<and> excluded_exceptions (init (args\<lparr>arg_exclude := Some es\<rparr>) now) = es
   \<and> get_listeners (init (args\<lparr>arg_listeners := Some ls\<rparr>) now) = ls
   \<and> name (init (args\<lparr>arg_name := Some s\<rparr>) now) = Some s
   \<and> fail_max (set_fail_max n b) = n
   \<and> timeout_duration (set_timeout_duration t b) = t
   \<and> name (set_name nm b) = nm
   \<and> excluded_exceptions (add_excluded_exception c b) = excluded_exceptions b @ [c]
   \<and> excluded_exceptions (add_excluded_exceptions cs b) = excluded_exceptions b @ cs
   \<and> remove_excluded_exception c (add_excluded_exception c b)
       = Inr (b\<lparr>excluded_exception_types := remove1 c (excluded_exception_types b @ [c])\<rparr>)
   \<and> get_listeners (add_listener l b) = get_listeners b @ [l]
   \<and> get_listeners (add_listeners ls b) = get_listeners b @ ls
   \<and> remove_listener l (add_listener l b)
       = Inr (b\<lparr>listeners := remove1 l (listeners b @ [l])\<rparr>)"
proof -
  have d: "fail_max (init no_args now) = 5"
    "timeout_duration (init no_args now) = timedelta_seconds 60"
    "timedelta_seconds 60 = 60 * 1000000"
    "excluded_exceptions (init no_args now) = []"
    "get_listeners (init no_args now) = []"
    "name (init no_args now) = None"
    "cached_state (init no_args now) = CircuitClosedState"
    "storage_state (state_storage (init no_args now)) = CLOSED"
    "storage_counter (state_storage (init no_args now)) = 0"
    by (simp_all add: init_def no_args_def CircuitMemoryStorage_def excluded_exceptions_def
          get_listeners_def timedelta_seconds_def)
  have c: "fail_max (init (args\<lparr>arg_fail_max := Some n\<rparr>) now) = n"
    "timeout_duration (init (args\<lparr>arg_timeout_duration := Some t\<rparr>) now) = t"
    "excluded_exceptions (init (args\<lparr>arg_exclude := Some es\<rparr>) now) = es"
    "get_listeners (init (args\<lparr>arg_listeners := Some ls\<rparr>) now) = ls"
    "name (init (args\<lparr>arg_name := Some s\<rparr>) now) = Some s"
    by (simp_all add: init_def excluded_exceptions_def get_listeners_def Let_def)
  have m: "fail_max (set_fail_max n b) = n"
    "timeout_duration (set_timeout_duration t b) = t"
    "name (set_name nm b) = nm"
    "excluded_exceptions (add_excluded_exception c b) = excluded_exceptions b @ [c]"
    "get_listeners (add_listener l b) = get_listeners b @ [l]"
    by (simp_all add: set_fail_max_def set_timeout_duration_def set_name_def
          add_excluded_exception_def add_listener_def excluded_exceptions_def get_listeners_def)
  have r: "remove_excluded_exception c (add_excluded_exception c b)
       = Inr (b\<lparr>excluded_exception_types := remove1 c (excluded_exception_types b @ [c])\<rparr>)"
    "remove_listener l (add_listener l b)
       = Inr (b\<lparr>listeners := remove1 l (listeners b @ [l])\<rparr>)"
    by (simp_all add: remove_excluded_exception_def add_excluded_exception_def
          remove_listener_def add_listener_def)
  have a: "excluded_exceptions (add_excluded_exceptions cs b) = excluded_exceptions b @ cs"
    "get_listeners (add_listeners ls b) = get_listeners b @ ls"
    by (simp_all add: excluded_exceptions_def get_listeners_def add_excluded_exceptions_append
          add_listeners_append)
  from d c m r a show ?thesis by blast
qed

section \<open>Arguments of the decorator\<close>

text \<open>
  Claim C10. \<^verbatim>\<open>__call__\<close> with positional arguments that are neither none nor exactly one
  function raises TypeError and leaves the world, the breaker in it, as it was; with no
  positional argument it returns the decorator, and with exactly one function it returns
  the wrapper of that function; the world is unchanged in both cases too. The decorator
  makes, of any function, the wrapper that decorating that function directly returns. The
  wrapper carries the mark \<^verbatim>\<open>_ignore_on_call\<close> with the value that was asked for (true when
  none was), is a coroutine function exactly when the function is, and a call of it is
  \<^verbatim>\<open>call\<close> of the function, or \<^verbatim>\<open>call_async\<close> for a coroutine function: for a function
  that does not carry the mark, one dispatch of the function through the routine of the
  breaker's current state.
\<close>

theorem decorator_arguments:
  "(call_args \<noteq> [] \<and> (\<forall>func. call_args \<noteq> [Function func]) \<longrightarrow>
      dunder_call call_args ig w
        = (Inl (PyExc TypeError_cls ''Decorator does not accept positional arguments.''), w))
   \<and> dunder_call [] ig w
        = (Inr (OuterWrapper (outer_wrapper (case ig of None \<Rightarrow> True | Some v \<Rightarrow> v))), w)
   \<and> dunder_call [Function func] ig w
        = (Inr (ReturnFunc (outer_wrapper (case ig of None \<Rightarrow> True | Some v \<Rightarrow> v) func)), w)
   \<and> (\<exists>dec wrapped.
         fst (dunder_call [] ig w) = Inr (OuterWrapper dec)
       \<and> fst (dunder_call [Function func] ig w) = Inr (ReturnFunc wrapped)
       \<and> dec func = wrapped
       \<and> ignore_on_call_attr wrapped = Some (case ig of None \<Rightarrow> True | Some v \<Rightarrow> v)
       \<and> getattr_ignore_on_call wrapped = (case ig of None \<Rightarrow> True | Some v \<Rightarrow> v)
       \<and> is_coroutine wrapped = is_coroutine func
       \<and> body wrapped = (if is_coroutine func then call_async func else call func)
       \<and> (\<not> getattr_ignore_on_call func \<longrightarrow>
            body wrapped w' = state_call (fst (state_getter w')) func
                                ((snd (state_getter w'))\<lparr>dispatches := dispatches w' + 1\<rparr>)))"
proof -
  define i where "i = (case ig of None \<Rightarrow> True | Some v \<Rightarrow> v)"
  have err: "dunder_call call_args ig w
        = (Inl (PyExc TypeError_cls ''Decorator does not accept positional arguments.''), w)"
    if "call_args \<noteq> []" "\<forall>func. call_args \<noteq> [Function func]"
    using that by (auto simp: dunder_call_def Let_def split: list.splits pyobject.splits)
  have none: "dunder_call [] ig w = (Inr (OuterWrapper (outer_wrapper i)), w)"
    by (simp add: dunder_call_def i_def)
  have one: "dunder_call [Function func] ig w = (Inr (ReturnFunc (outer_wrapper i func)), w)"
    by (simp add: dunder_call_def i_def)
  have mark: "ignore_on_call_attr (outer_wrapper i func) = Some i"
    "getattr_ignore_on_call (outer_wrapper i func) = i"
    "is_coroutine (outer_wrapper i func) = is_coroutine func"
    by (simp_all add: outer_wrapper_def getattr_ignore_on_call_def)
  have bdy: "body (outer_wrapper i func) = (if is_coroutine func then call_async func else call func)"
    by (simp add: outer_wrapper_def)
  have disp: "body (outer_wrapper i func) w' = state_call (fst (state_getter w')) func
                                ((snd (state_getter w'))\<lparr>dispatches := dispatches w' + 1\<rparr>)"
    if "\<not> getattr_ignore_on_call func"
    using call_unmarked[OF that, of w'] call_async_unmarked[OF that, of w']
    by (simp add: bdy)
  have ex: "\<exists>dec wrapped.
         fst (dunder_call [] ig w) = Inr (OuterWrapper dec)
       \<and> fst (dunder_call [Function func] ig w) = Inr (ReturnFunc wrapped)
       \<and> dec func = wrapped
       \<and> ignore_on_call_attr wrapped = Some i
       \<and> getattr_ignore_on_call wrapped = i
       \<and> is_coroutine wrapped = is_coroutine func
       \<and> body wrapped = (if is_coroutine func then call_async func else call func)
       \<and> (\<not> getattr_ignore_on_call func \<longrightarrow>
            body wrapped w' = state_call (fst (state_getter w')) func
                                ((snd (state_getter w'))\<lparr>dispatches := dispatches w' + 1\<rparr>))"
    using none one mark bdy disp
    by (intro exI[of _ "outer_wrapper i"] exI[of _ "outer_wrapper i func"]) simp
  from err none one ex show ?thesis
    unfolding i_def by blast
qed

theorem decorator_arguments_witness:
  "dunder_call [NotFunction ''five''] None (new_world sample_args 100)
     = (Inl (PyExc TypeError_cls ''Decorator does not accept positional arguments.''),
        new_world sample_args 100)
   \<and> dunder_call [Function (user_function 1 (Inr PyNone)), Function (user_function 1 (Inr PyNone))]
        (Some False) (new_world sample_args 100)
     = (Inl (PyExc TypeError_cls ''Decorator does not accept positional arguments.''),
        new_world sample_args 100)
   \<and> \<not> getattr_ignore_on_call (user_function 1 (Inr PyNone))"
proof -
  let ?w = "new_world sample_args 100"
  let ?f = "Function (user_function 1 (Inr PyNone))"
  have 1: "[NotFunction ''five''] \<noteq> [] \<and> (\<forall>func. [NotFunction ''five''] \<noteq> [Function func])"
    by simp
  have 2: "[?f, ?f] \<noteq> [] \<and> (\<forall>func. [?f, ?f] \<noteq> [Function func])"
    by simp
  from decorator_arguments[where call_args = "[NotFunction ''five'']" and ig = None and w = ?w] 1
  have a: "dunder_call [NotFunction ''five''] None ?w
     = (Inl (PyExc TypeError_cls ''Decorator does not accept positional arguments.''), ?w)"
    by blast
  from decorator_arguments[where call_args = "[?f, ?f]" and ig = "Some False" and w = ?w] 2
  have b: "dunder_call [?f, ?f] (Some False) ?w
     = (Inl (PyExc TypeError_cls ''Decorator does not accept positional arguments.''), ?w)"
    by blast
  from a b user_function_unmarked[of 1 "Inr PyNone"] show ?thesis by simp
qed

end
